theory Spec2Isabelle
  imports Main "HOL-Library.AList"
begin

section \<open>Strings and character classes\<close>

text \<open>
  JavaScript strings are modelled as \<^typ>\<open>string\<close>, read as UTF-8 text: every character
  that the regular expressions of the library single out (dot, brackets, quotes, backslash,
  digits, word characters) is ASCII, so scanning bytes and scanning code units agree.
  The two default icons are written as their UTF-8 bytes.
\<close>

definition dquote :: char where
  "dquote = CHR 0x22"

definition squote :: char where
  "squote = CHR 0x27"

definition backslash :: char where
  "backslash = CHR 0x5C"

definition is_digit :: "char \<Rightarrow> bool" where
  "is_digit c \<longleftrightarrow> c \<in> set ''0123456789''"

text \<open>The class \<open>\w\<close> of a JavaScript regular expression: \<open>[A-Za-z0-9_]\<close>.\<close>

definition is_word_char :: "char \<Rightarrow> bool" where
  "is_word_char c \<longleftrightarrow>
     is_digit c \<or> ((65::nat) \<le> of_char c \<and> of_char c \<le> (90::nat))
     \<or> c = CHR ''_'' \<or> ((97::nat) \<le> of_char c \<and> of_char c \<le> (122::nat))"

text \<open>The three characters excluded by the class \<open>[^.[\]]\<close>.\<close>

definition is_sep :: "char \<Rightarrow> bool" where
  "is_sep c \<longleftrightarrow> c = CHR ''.'' \<or> c = CHR ''['' \<or> c = CHR '']''"

definition digit_char :: "nat \<Rightarrow> char" where
  "digit_char d = ''0123456789'' ! d"

definition digit_val :: "char \<Rightarrow> nat" where
  "digit_val c = of_char c - 48"

text \<open>\<open>ToString\<close> of a non-negative integer, and of an integer.\<close>

fun string_of_nat :: "nat \<Rightarrow> string" where
  "string_of_nat n =
     (if n < 10 then [digit_char n] else string_of_nat (n div 10) @ [digit_char (n mod 10)])"

declare string_of_nat.simps [simp del]

definition string_of_int :: "int \<Rightarrow> string" where
  "string_of_int i = (if i < 0 then CHR ''-'' # string_of_nat (nat (- i)) else string_of_nat (nat i))"

definition nat_of_string :: "string \<Rightarrow> nat" where
  "nat_of_string s = foldl (\<lambda>n c. 10 * n + digit_val c) 0 s"

text \<open>\<open>xs.join(sep)\<close> on a list of strings.\<close>

fun join_strings :: "string \<Rightarrow> string list \<Rightarrow> string" where
  "join_strings sep [] = []"
| "join_strings sep [x] = x"
| "join_strings sep (x # y # ys) = x @ sep @ join_strings sep (y # ys)"

text \<open>\<open>s.replaceAll(a, b)\<close> for single characters \<open>a\<close> and \<open>b\<close>.\<close>

definition replaceAll :: "char \<Rightarrow> char \<Rightarrow> string \<Rightarrow> string" where
  "replaceAll a b s = map (\<lambda>c. if c = a then b else c) s"


section \<open>Values\<close>

text \<open>
  The data is a tree of mappings and sequences with scalar leaves. An object is the list of
  its own properties in enumeration order. An array has its elements and, as any JavaScript
  array, may carry named properties beside them (arrays read from JSON carry none; a write
  of a non-index key to an array adds one). A hole of a sparse array is the element
  \<open>JUndefined\<close>. Numbers are the integer-valued ones. Only the members of the tree are
  properties: inherited and built-in members (\<open>length\<close>, the methods of the prototypes) are
  outside the model.
\<close>

datatype jsval =
    JUndefined
  | JNull
  | JBool bool
  | JNum int
  | JStr string
  | JArr "jsval list" "(string \<times> jsval) list"
  | JObj "(string \<times> jsval) list"

type_synonym props = "(string \<times> jsval) list"

text \<open>lodash \<open>isObject\<close>: the value is an object or an array.\<close>

fun isObject :: "jsval \<Rightarrow> bool" where
  "isObject (JArr xs ps) = True"
| "isObject (JObj ps) = True"
| "isObject v = False"

text \<open>The test \<open>v == null\<close>.\<close>

fun isNullish :: "jsval \<Rightarrow> bool" where
  "isNullish JUndefined = True"
| "isNullish JNull = True"
| "isNullish v = False"


section \<open>JSON.stringify\<close>

definition hex_char :: "nat \<Rightarrow> char" where
  "hex_char d = ''0123456789abcdef'' ! d"

text \<open>\<open>QuoteJSONString\<close>, one character.\<close>

definition quote_char :: "char \<Rightarrow> string" where
  "quote_char c =
     (if c = dquote then [backslash, dquote]
      else if c = backslash then [backslash, backslash]
      else if c = CHR 0x08 then [backslash, CHR ''b'']
      else if c = CHR 0x09 then [backslash, CHR ''t'']
      else if c = CHR 0x0A then [backslash, CHR ''n'']
      else if c = CHR 0x0C then [backslash, CHR ''f'']
      else if c = CHR 0x0D then [backslash, CHR ''r'']
      else if (of_char c :: nat) < 32
        then [backslash, CHR ''u'', CHR ''0'', CHR ''0'',
              hex_char ((of_char c :: nat) div 16), hex_char ((of_char c :: nat) mod 16)]
      else [c])"

definition quote_string :: "string \<Rightarrow> string" where
  "quote_string s = dquote # concat (map quote_char s) @ [dquote]"

text \<open>An element of an array that serialises to nothing is written \<open>null\<close>.\<close>

definition element_text :: "string option \<Rightarrow> string" where
  "element_text r = (case r of None \<Rightarrow> ''null'' | Some s \<Rightarrow> s)"

text \<open>A property whose value serialises to nothing is left out.\<close>

definition member_texts :: "(string \<times> string option) list \<Rightarrow> string list" where
  "member_texts ms =
     concat (map (\<lambda>(k, r). case r of None \<Rightarrow> [] | Some s \<Rightarrow> [quote_string k @ '':'' @ s]) ms)"

text \<open>
  \<open>JSON.stringify(value)\<close> with no indentation; \<open>None\<close> is the result \<open>undefined\<close>.
  The named properties of an array are not serialised.
\<close>

primrec JSON_stringify :: "jsval \<Rightarrow> string option" where
  "JSON_stringify JUndefined = None"
| "JSON_stringify JNull = Some ''null''"
| "JSON_stringify (JBool b) = Some (if b then ''true'' else ''false'')"
| "JSON_stringify (JNum i) = Some (string_of_int i)"
| "JSON_stringify (JStr s) = Some (quote_string s)"
| "JSON_stringify (JArr xs ps) =
     Some (''['' @ join_strings '','' (map element_text (map JSON_stringify xs)) @ '']'')"
| "JSON_stringify (JObj ps) =
     Some (''{'' @ join_strings '','' (member_texts (map (map_prod id JSON_stringify) ps)) @ ''}'')"

text \<open>\<open>String(x)\<close> of the result of \<open>JSON.stringify\<close>.\<close>

definition String_of :: "string option \<Rightarrow> string" where
  "String_of r = (case r of None \<Rightarrow> ''undefined'' | Some s \<Rightarrow> s)"


section \<open>Property access\<close>

text \<open>\<open>reIsUint = /^(?:0|[1-9]\d*)$/\<close> of lodash.\<close>

definition reIsUint :: "string \<Rightarrow> bool" where
  "reIsUint s \<longleftrightarrow>
     s = ''0'' \<or> (s \<noteq> [] \<and> is_digit (hd s) \<and> hd s \<noteq> CHR ''0'' \<and> list_all is_digit (tl s))"

text \<open>
  lodash \<open>isIndex(value)\<close> for a string, with the default bound \<open>MAX_SAFE_INTEGER\<close>
  (\<open>2^53 - 1\<close>).
\<close>

definition isIndex :: "string \<Rightarrow> bool" where
  "isIndex s \<longleftrightarrow> reIsUint s \<and> nat_of_string s < 9007199254740991"

text \<open>
  A property key that is an array index: a canonical numeric string below \<open>2^32 - 1\<close>.
  These keys address the elements of an array and come first, in ascending order, in the
  property enumeration of an object.
\<close>

definition array_index :: "string \<Rightarrow> nat option" where
  "array_index k =
     (if reIsUint k \<and> nat_of_string k < 4294967295 then Some (nat_of_string k) else None)"

definition lookup_prop :: "props \<Rightarrow> string \<Rightarrow> jsval" where
  "lookup_prop ps k = (case map_of ps k of None \<Rightarrow> JUndefined | Some v \<Rightarrow> v)"

text \<open>The read \<open>object[key]\<close> of a value that is not \<open>null\<close> or \<open>undefined\<close>.\<close>

fun prop_get :: "jsval \<Rightarrow> string \<Rightarrow> jsval" where
  "prop_get (JObj ps) k = lookup_prop ps k"
| "prop_get (JArr xs ps) k =
     (case array_index k of
        Some i \<Rightarrow> if i < length xs then xs ! i else JUndefined
      | None \<Rightarrow> lookup_prop ps k)"
| "prop_get v k = JUndefined"

text \<open>The test \<open>key in Object(object)\<close> of a value that is not \<open>null\<close> or \<open>undefined\<close>.\<close>

fun has_prop :: "jsval \<Rightarrow> string \<Rightarrow> bool" where
  "has_prop (JObj ps) k = (k \<in> fst ` set ps)"
| "has_prop (JArr xs ps) k =
     (case array_index k of Some i \<Rightarrow> i < length xs | None \<Rightarrow> k \<in> fst ` set ps)"
| "has_prop v k = False"

text \<open>A new integer key goes before the first key that is not a smaller integer key.\<close>

fun insert_index :: "nat \<Rightarrow> string \<Rightarrow> 'v \<Rightarrow> (string \<times> 'v) list \<Rightarrow> (string \<times> 'v) list" where
  "insert_index i k v [] = [(k, v)]"
| "insert_index i k v (p # ps) =
     (case array_index (fst p) of
        Some j \<Rightarrow> if j < i then p # insert_index i k v ps else (k, v) # p # ps
      | None \<Rightarrow> (k, v) # p # ps)"

text \<open>
  The write \<open>object[key] = value\<close> on the property list of an object: an existing property
  keeps its place, a new one is added in enumeration order.
\<close>

definition put_prop :: "string \<Rightarrow> 'v \<Rightarrow> (string \<times> 'v) list \<Rightarrow> (string \<times> 'v) list" where
  "put_prop k v ps =
     (if k \<in> fst ` set ps then AList.update k v ps
      else case array_index k of Some i \<Rightarrow> insert_index i k v ps | None \<Rightarrow> ps @ [(k, v)])"

text \<open>
  The write \<open>array[i] = value\<close>: in range it replaces the element, out of range JavaScript
  extends the array and leaves holes, for which the value \<open>hole\<close> stands.
\<close>

definition put_elem :: "'v \<Rightarrow> nat \<Rightarrow> 'v \<Rightarrow> 'v list \<Rightarrow> 'v list" where
  "put_elem hole i v xs =
     (if i < length xs then xs[i := v] else xs @ replicate (i - length xs) hole @ [v])"

text \<open>
  lodash \<open>assignValue(object, key, value)\<close> as the value of \<open>object\<close> afterwards. (It skips
  the write when the property already holds the value, which leaves the same object.)
\<close>

fun assignValue :: "jsval \<Rightarrow> string \<Rightarrow> jsval \<Rightarrow> jsval" where
  "assignValue (JObj ps) k v = JObj (put_prop k v ps)"
| "assignValue (JArr xs ps) k v =
     (case array_index k of
        Some i \<Rightarrow> JArr (put_elem JUndefined i v xs) ps
      | None \<Rightarrow> JArr xs (put_prop k v ps))"
| "assignValue w k v = w"


section \<open>Property paths of lodash\<close>

text \<open>\<open>reIsPlainProp = /^\w*$/\<close>.\<close>

definition reIsPlainProp :: "string \<Rightarrow> bool" where
  "reIsPlainProp s \<longleftrightarrow> list_all is_word_char s"

text \<open>
  The character after a backslash in \<open>\\.\<close>: any but a line terminator (line feed, carriage
  return, and U+2028, U+2029, whose UTF-8 forms start \<open>E2 80 A8\<close> and \<open>E2 80 A9\<close>).
\<close>

definition line_terminator_ahead :: "string \<Rightarrow> bool" where
  "line_terminator_ahead s \<longleftrightarrow>
     (case s of
        [] \<Rightarrow> False
      | c # r \<Rightarrow> c = CHR 0x0A \<or> c = CHR 0x0D
          \<or> (c = CHR 0xE2 \<and> (case r of
                d # e # _ \<Rightarrow> d = CHR 0x80 \<and> (e = CHR 0xA8 \<or> e = CHR 0xA9)
              | _ \<Rightarrow> False)))"

text \<open>
  The rest of a quoted key after its opening quote \<open>q\<close>: the lazy repetition
  \<open>((?:(?!q)[^\\]|\\.)*?)\<close> followed by \<open>q\<close> and \<open>]\<close>. It gives the text between the quotes
  and what follows the bracket. A quote that is not followed by \<open>]\<close> can be passed only
  behind a backslash.
\<close>

fun quoted_key :: "char \<Rightarrow> string \<Rightarrow> string \<Rightarrow> (string \<times> string) option" where
  "quoted_key q acc [] = None"
| "quoted_key q acc (c # cs) =
     (if c = q then (case cs of
          [] \<Rightarrow> None
        | d # ds \<Rightarrow> if d = CHR '']'' then Some (rev acc, ds) else None)
      else if c = backslash then (case cs of
          [] \<Rightarrow> None
        | d # ds \<Rightarrow> if line_terminator_ahead cs then None else quoted_key q (d # c # acc) ds)
      else quoted_key q (c # acc) cs)"

text \<open>\<open>reEscapeChar = /\\(\\)?/g\<close> replaced by \<open>$1\<close>.\<close>

fun unescape :: "string \<Rightarrow> string" where
  "unescape [] = []"
| "unescape [c] = (if c = backslash then [] else [c])"
| "unescape (c # d # cs) =
     (if c = backslash then (if d = backslash then backslash # unescape cs else unescape (d # cs))
      else c # unescape (d # cs))"

text \<open>The text after \<open>[\<close> as a quoted key: \<open>(["'])...\2\]\<close>.\<close>

definition bracket_quoted :: "string \<Rightarrow> (string \<times> string) option" where
  "bracket_quoted s =
     (case s of
        [] \<Rightarrow> None
      | q # cs \<Rightarrow> if q = dquote \<or> q = squote then quoted_key q [] cs else None)"

text \<open>The text after \<open>[\<close> as a number: \<open>(-?\d+(?:\.\d+)?)\]\<close>.\<close>

definition bracket_number :: "string \<Rightarrow> (string \<times> string) option" where
  "bracket_number s =
     (let sign = (case s of [] \<Rightarrow> [] | c # r \<Rightarrow> if c = CHR ''-'' then [c] else []);
          r0 = drop (length sign) s;
          ds = takeWhile is_digit r0;
          r1 = dropWhile is_digit r0
      in if ds = [] then None
         else case r1 of
             [] \<Rightarrow> None
           | c # r2 \<Rightarrow>
               if c = CHR '']'' then Some (sign @ ds, r2)
               else if c = CHR ''.'' then
                 (let fs = takeWhile is_digit r2; r3 = dropWhile is_digit r2
                  in if fs = [] then None
                     else case r3 of
                         [] \<Rightarrow> None
                       | d # r4 \<Rightarrow> if d = CHR '']'' then Some (sign @ ds @ ''.'' @ fs, r4) else None)
               else None)"

text \<open>
  The second alternative of \<open>rePropName\<close> after its \<open>[\<close>, with the key that
  \<open>stringToPath\<close> pushes for it: the number as written, or the quoted text unescaped.
\<close>

definition bracket_token :: "string \<Rightarrow> (string \<times> string) option" where
  "bracket_token s =
     (case bracket_number s of
        Some r \<Rightarrow> Some r
      | None \<Rightarrow> (case bracket_quoted s of
            Some (t, r) \<Rightarrow> Some (unescape t, r)
          | None \<Rightarrow> None))"

text \<open>
  The third alternative of \<open>rePropName\<close>, the lookahead
  \<open>(?=(?:\.|\[\])(?:\.|\[\]|$))\<close>: an empty key between two delimiters.
\<close>

definition after_delim :: "string \<Rightarrow> string option" where
  "after_delim s =
     (case s of
        [] \<Rightarrow> None
      | c # r \<Rightarrow>
          if c = CHR ''.'' then Some r
          else if c = CHR ''['' then (case r of [] \<Rightarrow> None | d # r' \<Rightarrow> if d = CHR '']'' then Some r' else None)
          else None)"

definition empty_key_ahead :: "string \<Rightarrow> bool" where
  "empty_key_ahead s \<longleftrightarrow>
     (case after_delim s of
        None \<Rightarrow> False
      | Some r \<Rightarrow> r = [] \<or> after_delim r \<noteq> None)"

text \<open>
  \<open>[^[\]]*\]\<close> after a \<open>[\<close>, the first bracket form of \<open>reIsDeepProp\<close>.
\<close>

fun bracket_plain :: "string \<Rightarrow> bool" where
  "bracket_plain [] = False"
| "bracket_plain (c # cs) =
     (if c = CHR '']'' then True else if c = CHR ''['' then False else bracket_plain cs)"

text \<open>
  \<open>reIsDeepProp = /\.|\[(?:[^[\]]*|(["'])(?:(?!\1)[^\\]|\\.)*?\1)\]/\<close>, tested anywhere in
  the string.
\<close>

fun reIsDeepProp :: "string \<Rightarrow> bool" where
  "reIsDeepProp [] = False"
| "reIsDeepProp (c # cs) =
     (c = CHR ''.''
      \<or> (c = CHR ''['' \<and> (bracket_plain cs \<or> bracket_quoted cs \<noteq> None))
      \<or> reIsDeepProp cs)"


lemma quoted_key_shorter:
  "quoted_key q acc s = Some (t, r) \<Longrightarrow> length r < length s"
  by (induction q acc s rule: quoted_key.induct) (auto split: if_splits list.splits)

lemma bracket_quoted_shorter:
  "bracket_quoted s = Some (t, r) \<Longrightarrow> length r < length s"
  by (auto simp: bracket_quoted_def split: list.splits if_splits dest: quoted_key_shorter)

lemma suffix_of_dropWhile_shorter:
  "dropWhile P s = c # r \<Longrightarrow> length r < length s"
  using length_dropWhile_le [of P s] by simp

lemma bracket_number_shorter:
  assumes "bracket_number s = Some (t, r)"
  shows "length r < length s"
proof -
  let ?sign = "case s of [] \<Rightarrow> [] | c # r \<Rightarrow> if c = CHR ''-'' then [c] else []"
  let ?r0 = "drop (length ?sign) s"
  obtain c r2 where r1: "dropWhile is_digit ?r0 = c # r2"
    using assms by (auto simp: bracket_number_def Let_def split: if_splits list.splits)
  have l2: "length r2 < length s"
    using suffix_of_dropWhile_shorter [OF r1] by simp
  show ?thesis
  proof (cases "c = CHR '']''")
    case True
    with assms r1 have "r = r2"
      by (auto simp: bracket_number_def Let_def split: if_splits)
    with l2 show ?thesis by simp
  next
    case False
    with assms r1 obtain d where "dropWhile is_digit r2 = d # r"
      by (auto simp: bracket_number_def Let_def split: if_splits list.splits)
    from suffix_of_dropWhile_shorter [OF this] l2 show ?thesis by simp
  qed
qed

lemma bracket_token_shorter:
  "bracket_token s = Some (t, r) \<Longrightarrow> length r < length s"
  by (auto simp: bracket_token_def split: option.splits
      dest: bracket_number_shorter bracket_quoted_shorter)

text \<open>
  The scan of \<open>string.replace(rePropName, ...)\<close> in \<open>stringToPath\<close>, with
  \<open>rePropName = /[^.[\]]+|\[(?:(-?\d+(?:\.\d+)?)|(["'])((?:(?!\2)[^\\]|\\.)*?)\2)\]|(?=(?:\.|\[\])(?:\.|\[\]|$))/g\<close>:
  at each position the first alternative that matches pushes a key (a run of characters
  other than dot and brackets; a bracketed number or quoted key; the empty key), and a
  position where none matches, or where the match is empty, is passed by one character.
\<close>

function rePropName_keys :: "string \<Rightarrow> string list" where
  "rePropName_keys [] = []"
| "rePropName_keys (c # cs) =
     (if \<not> is_sep c then
        takeWhile (\<lambda>x. \<not> is_sep x) (c # cs) # rePropName_keys (dropWhile (\<lambda>x. \<not> is_sep x) cs)
      else if c = CHR ''['' then
        (case bracket_token cs of
           Some (t, r) \<Rightarrow> t # rePropName_keys r
         | None \<Rightarrow> (if empty_key_ahead (c # cs) then [[]] else []) @ rePropName_keys cs)
      else (if empty_key_ahead (c # cs) then [[]] else []) @ rePropName_keys cs)"
  by pat_completeness auto
termination
proof (relation "measure length")
  show "wf (measure length)" by simp
next
  fix c :: char and cs :: string
  show "(dropWhile (\<lambda>x. \<not> is_sep x) cs, c # cs) \<in> measure length"
    using length_dropWhile_le [of "\<lambda>x. \<not> is_sep x" cs] by simp
next
  fix c :: char and cs t r x2
  assume "bracket_token cs = Some x2" "(t, r) = x2"
  then show "(r, c # cs) \<in> measure length"
    using bracket_token_shorter [of cs t r] by simp
qed simp_all

text \<open>lodash \<open>stringToPath\<close>: a leading dot pushes an empty key first.\<close>

definition stringToPath :: "string \<Rightarrow> string list" where
  "stringToPath s = (if s \<noteq> [] \<and> hd s = CHR ''.'' then [[]] else []) @ rePropName_keys s"

text \<open>
  lodash \<open>isKey(value, object)\<close> for a string: the string is one property name and not a
  path. The callers pass an object that is not \<open>null\<close> or \<open>undefined\<close>.
\<close>

definition isKey :: "string \<Rightarrow> jsval \<Rightarrow> bool" where
  "isKey s object \<longleftrightarrow>
     reIsPlainProp s \<or> \<not> reIsDeepProp s \<or> (\<not> isNullish object \<and> has_prop object s)"

text \<open>lodash \<open>castPath(value, object)\<close> for a string.\<close>

definition castPath :: "string \<Rightarrow> jsval \<Rightarrow> string list" where
  "castPath s object = (if isKey s object then [s] else stringToPath s)"

text \<open>
  The loop of lodash \<open>baseGet\<close>: \<open>while (object != null && index < length)\<close>
  \<open>object = object[path[index++]]\<close>, giving \<open>undefined\<close> when it stops before the end.
\<close>

fun walk :: "jsval \<Rightarrow> string list \<Rightarrow> jsval" where
  "walk object [] = object"
| "walk object (k # ks) = (if isNullish object then JUndefined else walk (prop_get object k) ks)"

text \<open>lodash \<open>baseGet\<close>: an empty path gives \<open>undefined\<close>.\<close>

definition baseGet :: "jsval \<Rightarrow> string \<Rightarrow> jsval" where
  "baseGet object s =
     (let p = castPath s object in if p = [] then JUndefined else walk object p)"

text \<open>lodash \<open>_.get(object, path)\<close> with a string path and no default value.\<close>

definition lodash_get :: "jsval \<Rightarrow> string \<Rightarrow> jsval" where
  "lodash_get object s = (if isNullish object then JUndefined else baseGet object s)"

text \<open>The keys at which lodash \<open>baseSet\<close> stops and returns.\<close>

definition unsafe_key :: "string \<Rightarrow> bool" where
  "unsafe_key k \<longleftrightarrow> k = ''__proto__'' \<or> k = ''constructor'' \<or> k = ''prototype''"

text \<open>
  The loop of lodash \<open>baseSet\<close>, from the container \<open>nested\<close> on, as the value of that
  container afterwards. Before the last key the container at the key is kept when it is an
  object or an array and is otherwise replaced by a new array (when the next key is an
  index) or a new object; the last key receives the value. At an unsafe key the loop
  stops, leaving what it has written so far.
\<close>

fun baseSet_loop :: "jsval \<Rightarrow> string list \<Rightarrow> jsval \<Rightarrow> jsval" where
  "baseSet_loop nested [] v = nested"
| "baseSet_loop nested [k] v = (if unsafe_key k then nested else assignValue nested k v)"
| "baseSet_loop nested (k # k' # ks) v =
     (if unsafe_key k then nested
      else let objValue = prop_get nested k;
               newValue = (if isObject objValue then objValue
                           else if isIndex k' then JArr [] [] else JObj [])
           in assignValue nested k (baseSet_loop newValue (k' # ks) v))"

text \<open>lodash \<open>baseSet\<close>: a value that is not an object or an array is returned as it is.\<close>

definition baseSet :: "jsval \<Rightarrow> string \<Rightarrow> jsval \<Rightarrow> jsval" where
  "baseSet object s v =
     (if \<not> isObject object then object else baseSet_loop object (castPath s object) v)"

text \<open>lodash \<open>_.set(object, path, value)\<close> with a string path, as the object afterwards.\<close>

definition lodash_set :: "jsval \<Rightarrow> string \<Rightarrow> jsval \<Rightarrow> jsval" where
  "lodash_set object s v = (if isNullish object then object else baseSet object s v)"

text \<open>
  lodash \<open>_.cloneDeep\<close>: scalars as they are, an object with every own property cloned, an
  array with every element cloned (the named properties of an array are not copied).
\<close>

primrec cloneDeep :: "jsval \<Rightarrow> jsval" where
  "cloneDeep JUndefined = JUndefined"
| "cloneDeep JNull = JNull"
| "cloneDeep (JBool b) = JBool b"
| "cloneDeep (JNum i) = JNum i"
| "cloneDeep (JStr s) = JStr s"
| "cloneDeep (JArr xs ps) = JArr (map cloneDeep xs) []"
| "cloneDeep (JObj ps) = JObj (map (map_prod id cloneDeep) ps)"



section \<open>The validator\<close>

text \<open>A segment of an issue path: a property name or an array index.\<close>

datatype segment = Key string | Index nat

record issue =
  path :: "segment list"
  message :: string

text \<open>
  The schema is the validation engine, taken as given: \<open>schema.safeParse(data)\<close> succeeds
  or fails with the list \<open>result.error.issues\<close>.
\<close>

datatype parse_result = ParseSuccess | ParseFailure "issue list"

type_synonym schema = "jsval \<Rightarrow> parse_result"

text \<open>An \<open>issuesStyles\<close> object: its string-valued properties by name.\<close>

type_synonym styles = "string \<rightharpoonup> string"

datatype error = Error string

record validation =
  valid :: bool
  errors :: "issue list option"
  dataMismatches :: jsval

record result =
  result_errors :: "issue list option"
  result_dataMismatches :: jsval
  result_issuesStyles :: styles

definition warning_sign :: string where
  "warning_sign = [CHR 0xE2, CHR 0x9A, CHR 0xA0, CHR 0xEF, CHR 0xB8, CHR 0x8F]"

definition cross_mark :: string where
  "cross_mark = [CHR 0xE2, CHR 0x9D, CHR 0x8C]"

definition issuesStylesDefault :: styles where
  "issuesStylesDefault =
     [''iconPropertyError'' \<mapsto> warning_sign, ''iconPropertyMissing'' \<mapsto> cross_mark]"

definition errorInvalidSchema :: string where
  "errorInvalidSchema = ''You must provide a valid schema!''"

text \<open>A property of a styles object inside a template literal.\<close>

definition style_text :: "styles \<Rightarrow> string \<Rightarrow> string" where
  "style_text st k = (case st k of None \<Rightarrow> ''undefined'' | Some s \<Rightarrow> s)"

definition segment_text :: "segment \<Rightarrow> string" where
  "segment_text g = (case g of Key k \<Rightarrow> k | Index i \<Rightarrow> string_of_nat i)"

text \<open>\<open>error.path.join('.')\<close>.\<close>

definition instancePath :: "issue \<Rightarrow> string" where
  "instancePath e = join_strings ''.'' (map segment_text (path e))"

text \<open>\<open>String(JSON.stringify(value)).replaceAll("\"", "'")\<close>.\<close>

definition valueDisplay :: "jsval \<Rightarrow> string" where
  "valueDisplay v = replaceAll dquote squote (String_of (JSON_stringify v))"

text \<open>The marker of an issue, from the value read at its path.\<close>

definition errorDescription :: "styles \<Rightarrow> jsval \<Rightarrow> issue \<Rightarrow> string" where
  "errorDescription issuesStyles v e =
     (if message e = ''Required''
      then style_text issuesStyles ''iconPropertyMissing'' @ '' Missing property''
      else '' '' @ style_text issuesStyles ''iconPropertyError'' @ '' '' @ valueDisplay v
           @ '' '' @ message e)"

text \<open>
  The body of \<open>errors.forEach\<close>: it reads \<open>data\<close> and writes \<open>dataMismatches\<close>, whose new
  value it returns.
\<close>

definition flag_issue :: "styles \<Rightarrow> jsval \<Rightarrow> jsval \<Rightarrow> issue \<Rightarrow> jsval" where
  "flag_issue issuesStyles data dm e =
     (let v = lodash_get data (instancePath e)
      in lodash_set dm (instancePath e) (JStr (errorDescription issuesStyles v e)))"

text \<open>\<open>errors.forEach\<close>: the issues in the order of the list.\<close>

definition flag_issues :: "styles \<Rightarrow> jsval \<Rightarrow> jsval \<Rightarrow> issue list \<Rightarrow> jsval" where
  "flag_issues issuesStyles data dm issues = foldl (flag_issue issuesStyles data) dm issues"

definition validateSchemaZOD :: "schema \<Rightarrow> jsval \<Rightarrow> styles \<Rightarrow> validation" where
  "validateSchemaZOD sch data issuesStyles =
     (case sch data of
        ParseSuccess \<Rightarrow> \<lparr>valid = True, errors = None, dataMismatches = cloneDeep data\<rparr>
      | ParseFailure issues \<Rightarrow>
          \<lparr>valid = False, errors = Some issues,
           dataMismatches = flag_issues issuesStyles data (cloneDeep data) issues\<rparr>)"

text \<open>
  The entry point. The schema argument is \<open>None\<close> when it is \<open>null\<close> or \<open>undefined\<close>; the
  styles argument holds the properties the caller gave, none when it is left out.
\<close>

definition validateSchemaZod :: "jsval \<Rightarrow> schema option \<Rightarrow> styles \<Rightarrow> error + result" where
  "validateSchemaZod data sch issuesStyles =
     (case sch of
        None \<Rightarrow> Inl (Error errorInvalidSchema)
      | Some s \<Rightarrow>
          (let merged = issuesStylesDefault ++ issuesStyles;
               r = validateSchemaZOD s data merged
           in Inr \<lparr>result_errors = errors r, result_dataMismatches = dataMismatches r,
                   result_issuesStyles = merged\<rparr>))"




section \<open>Paths and locations\<close>


definition rejecting :: "issue list \<Rightarrow> schema" where
  "rejecting issues = (\<lambda>data. ParseFailure issues)"







text \<open>
  The joined path of the issue does not happen to be a property name of the root (a
  joined path of one segment is that segment).
\<close>

definition joined_free :: "jsval \<Rightarrow> issue \<Rightarrow> bool" where
  "joined_free obj e \<longleftrightarrow> (2 \<le> length (path e) \<longrightarrow> \<not> has_prop obj (instancePath e))"


section \<open>Basic facts\<close>



lemma cloneDeep_isObject [simp]: "isObject (cloneDeep v) = isObject v"
  by (cases v) simp_all

lemma lodash_set_not_object: "\<not> isObject dm \<Longrightarrow> lodash_set dm p v = dm"
  by (simp add: lodash_set_def baseSet_def)

lemma flag_issues_Nil [simp]: "flag_issues st data dm [] = dm"
  by (simp add: flag_issues_def)

lemma flag_issues_Cons [simp]:
  "flag_issues st data dm (e # es) = flag_issues st data (flag_issue st data dm e) es"
  by (simp add: flag_issues_def)


lemma flag_issues_not_object: "\<not> isObject dm \<Longrightarrow> flag_issues st data dm es = dm"
  by (induction es) (simp_all add: flag_issue_def lodash_set_not_object)

lemma cloneDeep_not_object: "\<not> isObject v \<Longrightarrow> cloneDeep v = v"
  by (cases v) simp_all





lemma digit_val_zero: "is_digit c \<Longrightarrow> digit_val c = 0 \<longleftrightarrow> c = CHR ''0''"
  by (auto simp: is_digit_def digit_val_def)

















lemma isObject_assignValue [simp]: "isObject (assignValue obj k v) = isObject obj"
  by (cases obj) (simp_all split: option.splits)


lemma isObject_baseSet_loop [simp]: "isObject (baseSet_loop obj ks v) = isObject obj"
  by (induction obj ks v rule: baseSet_loop.induct) (simp_all add: Let_def)

lemma walk_undefined [simp]: "walk JUndefined ks = JUndefined"
  by (cases ks) simp_all
































lemma join_strings_nonempty: "ks \<noteq> [] \<Longrightarrow> hd ks \<noteq> [] \<Longrightarrow> join_strings sep ks \<noteq> []"
  by (induction sep ks rule: join_strings.induct) auto







lemma has_prop_cloneDeep: "has_prop (cloneDeep v) p \<Longrightarrow> has_prop v p"
  by (cases v) (force split: option.splits)+

lemma joined_free_cloneDeep: "joined_free data e \<Longrightarrow> joined_free (cloneDeep data) e"
  using has_prop_cloneDeep by (auto simp: joined_free_def)











lemma isObject_lodash_set [simp]: "isObject (lodash_set obj p v) = isObject obj"
  by (simp add: lodash_set_def baseSet_def)

lemma isObject_flag_issues [simp]: "isObject (flag_issues st data dm es) = isObject dm"
  by (induction es arbitrary: dm) (simp_all add: flag_issue_def)


section \<open>The entry point\<close>

text \<open>
  C3. With a schema that is \<open>null\<close> or \<open>undefined\<close> the entry point throws the error with
  the fixed message \<open>You must provide a valid schema!\<close>, whatever the data and the styles
  are: the outcome is decided before the data is looked at.
\<close>

theorem missing_schema_throws:
  "validateSchemaZod data None issuesStyles = Inl (Error ''You must provide a valid schema!'')"
  by (simp add: validateSchemaZod_def errorInvalidSchema_def)

text \<open>
  C10. When the data is not an object or an array and validation fails, the call returns
  (it does not throw) and \<open>dataMismatches\<close> is the copy of the data with no marker in it:
  every write of a marker leaves a root that is not an object as it is.
\<close>

theorem primitive_root_keeps_no_marker:
  assumes "\<not> isObject data" and "sch data = ParseFailure issues"
  shows "validateSchemaZod data (Some sch) issuesStyles =
           Inr \<lparr>result_errors = Some issues, result_dataMismatches = data,
                result_issuesStyles = issuesStylesDefault ++ issuesStyles\<rparr>"
  using assms
  by (simp add: validateSchemaZod_def validateSchemaZOD_def Let_def
      cloneDeep_not_object flag_issues_not_object)

theorem primitive_root_keeps_no_marker_witness:
  "validateSchemaZod (JStr ''ab'')
     (Some (rejecting
        [\<lparr>path = [], message = ''String must contain at least 5 character(s)''\<rparr>,
         \<lparr>path = [], message = ''Invalid email''\<rparr>]))
     Map.empty =
   Inr \<lparr>result_errors = Some
          [\<lparr>path = [], message = ''String must contain at least 5 character(s)''\<rparr>,
           \<lparr>path = [], message = ''Invalid email''\<rparr>],
        result_dataMismatches = JStr ''ab'',
        result_issuesStyles = issuesStylesDefault ++ Map.empty\<rparr>"
  by (rule primitive_root_keeps_no_marker) (simp_all add: rejecting_def)





section \<open>The marker of an issue\<close>







section \<open>The styles\<close>





section \<open>Where the markers go\<close>






end
